theory Spec2Isabelle
  imports
    Main
    "HOL-Library.AList"
    "HOL-Library.Char_ord"
    "HOL-Library.List_Lexorder"
    "HOL-Library.Product_Lexorder"
begin

section \<open>Records and the world the facade runs in\<close>

text \<open>
  A record is a JavaScript object with string keys: a partial map from field name to
  value. The object literal \<open>{...a, k: v}\<close> is \<open>a(k \<mapsto> v)\<close>, and
  \<open>{k: v, ...a}\<close> is \<open>[k \<mapsto> v] ++ a\<close> (the right operand of \<open>++\<close> wins).
\<close>

datatype val = Null | Bool bool | Num int | Str string

type_synonym fields = "string \<rightharpoonup> val"

datatype store_error = StoreError string

datatype console_entry =
    Log string string
  | Err string store_error

text \<open>
  The world holds the contents of the hosted store (per collection, the documents in store
  order as pairs of document identifier and stored fields), the scripts of what the
  environment will answer (whether the k-th request to the store fails, which identifier
  the client generates during it, what the n-th evaluation of
  \<open>new Date().toISOString()\<close> returns), and the browser console.
\<close>

record world =
  store :: "string \<Rightarrow> (string \<times> fields) list"
  fault :: "nat \<Rightarrow> store_error option"
  auto_id :: "nat \<Rightarrow> string"
  requests :: nat
  wall :: "nat \<Rightarrow> string"
  reads :: nat
  console :: "console_entry list"

definition console_log :: "world \<Rightarrow> string \<Rightarrow> string \<Rightarrow> world" where
  "console_log w msg x = w\<lparr>console := console w @ [Log msg x]\<rparr>"

definition console_error :: "world \<Rightarrow> string \<Rightarrow> store_error \<Rightarrow> world" where
  "console_error w msg e = w\<lparr>console := console w @ [Err msg e]\<rparr>"

text \<open>\<open>new Date().toISOString()\<close>: one reading of the wall clock, as ISO-8601 text.\<close>

definition new_Date_toISOString :: "world \<Rightarrow> string \<times> world" where
  "new_Date_toISOString w = (wall w (reads w), w\<lparr>reads := Suc (reads w)\<rparr>)"

section \<open>The document store client\<close>

text \<open>
  Modelled from the spec: the document store client (the package \<open>firebase/firestore\<close>
  and the connection handle \<open>db\<close> of \<open>./config\<close>), which the facade imports and which is
  not among the sources. Section 6 of the specification lists the capabilities consumed:
  reference resolution, create with generated identifier, create or replace with given
  identifier, point read, collection read, query composition (comparison operators, one
  ascending ordering, a row limit), partial update with merge semantics, delete, and two
  push subscriptions with a terminal error channel. Every request may fail as a whole with
  an error of the client (section 7), and then changes nothing.
\<close>

datatype constraint =
    Where string string val
  | OrderBy string
  | Limit nat

record query_ref =
  q_coll :: string
  q_constraints :: "constraint list"

type_synonym doc_ref = "string \<times> string"

type_synonym doc_snapshot = "string \<times> fields option"

type_synonym query_snapshot = "(string \<times> fields) list"

definition collection :: "string \<Rightarrow> query_ref" where
  "collection collectionName = \<lparr>q_coll = collectionName, q_constraints = []\<rparr>"

definition doc :: "string \<Rightarrow> string \<Rightarrow> doc_ref" where
  "doc collectionName documentId = (collectionName, documentId)"

text \<open>
  Values of different types are ordered by type first (null, booleans, numbers, text),
  then by value; text is ordered lexicographically by character code.
\<close>

fun val_key :: "val \<Rightarrow> nat \<times> int \<times> string" where
  "val_key Null = (0, 0, [])"
| "val_key (Bool b) = (1, (if b then 1 else 0), [])"
| "val_key (Num n) = (2, n, [])"
| "val_key (Str s) = (3, 0, s)"

definition same_type :: "val \<Rightarrow> val \<Rightarrow> bool" where
  "same_type x y = (fst (val_key x) = fst (val_key y))"

text \<open>
  The operators on scalar values. The membership operators \<open>in\<close>, \<open>not-in\<close> and
  \<open>array-contains-any\<close> need an array operand, which a scalar is not, so the client
  rejects them here; \<open>array-contains\<close> is accepted and matches no scalar field.
\<close>

definition valid_operator :: "string \<Rightarrow> bool" where
  "valid_operator operator =
     (operator \<in> set [''=='', ''!='', ''<'', ''<='', ''>'', ''>='', ''array-contains''])"

definition compare_val :: "string \<Rightarrow> val \<Rightarrow> val \<Rightarrow> bool" where
  "compare_val operator x v =
     (if operator = ''=='' then x = v
      else if operator = ''!='' then x \<noteq> v
      else if operator = ''<'' then same_type x v \<and> val_key x < val_key v
      else if operator = ''<='' then same_type x v \<and> val_key x \<le> val_key v
      else if operator = ''>'' then same_type x v \<and> val_key v < val_key x
      else if operator = ''>='' then same_type x v \<and> val_key v \<le> val_key x
      else False)"

fun valid_constraint :: "constraint \<Rightarrow> bool" where
  "valid_constraint (Where field operator v) = valid_operator operator"
| "valid_constraint (OrderBy field) = (field \<noteq> [])"
| "valid_constraint (Limit n) = (0 < n)"

text \<open>\<open>query(q, ...constraints)\<close> validates the constraints as it composes them.\<close>

definition query :: "query_ref \<Rightarrow> constraint list \<Rightarrow> store_error + query_ref" where
  "query q cs =
     (if list_all valid_constraint cs
      then Inr (q\<lparr>q_constraints := q_constraints q @ cs\<rparr>)
      else Inl (StoreError ''invalid-argument''))"

fun matches :: "constraint \<Rightarrow> fields \<Rightarrow> bool" where
  "matches (Where field operator v) d =
     (case d field of None \<Rightarrow> False | Some x \<Rightarrow> compare_val operator x v)"
| "matches (OrderBy field) d = (d field \<noteq> None)"
| "matches (Limit n) d = True"

fun order_fields :: "constraint list \<Rightarrow> string list" where
  "order_fields [] = []"
| "order_fields (OrderBy field # cs) = field # order_fields cs"
| "order_fields (c # cs) = order_fields cs"

fun limit_of :: "constraint list \<Rightarrow> nat option" where
  "limit_of [] = None"
| "limit_of (Limit n # cs) = (case limit_of cs of None \<Rightarrow> Some n | Some m \<Rightarrow> Some m)"
| "limit_of (c # cs) = limit_of cs"

definition record_key :: "string \<Rightarrow> fields \<Rightarrow> nat \<times> int \<times> string" where
  "record_key field d = (case d field of None \<Rightarrow> (0, 0, []) | Some x \<Rightarrow> val_key x)"

definition field_key :: "string \<Rightarrow> string \<times> fields \<Rightarrow> nat \<times> int \<times> string" where
  "field_key field p = record_key field (snd p)"

text \<open>
  Orderings are applied from the last to the first, each by a stable sort, so that the
  first one given is the primary key.
\<close>

definition ordered :: "string list \<Rightarrow> query_snapshot \<Rightarrow> query_snapshot" where
  "ordered fs ds = foldr (\<lambda>field acc. sort_key (field_key field) acc) fs ds"

definition capped :: "nat option \<Rightarrow> query_snapshot \<Rightarrow> query_snapshot" where
  "capped l ds = (case l of None \<Rightarrow> ds | Some n \<Rightarrow> take n ds)"

text \<open>
  The documents a query selects: those that satisfy every condition and carry every
  ordering field, ordered, then capped.
\<close>

definition run_query :: "constraint list \<Rightarrow> query_snapshot \<Rightarrow> query_snapshot" where
  "run_query cs ds =
     capped (limit_of cs)
       (ordered (order_fields cs) (filter (\<lambda>p. list_all (\<lambda>c. matches c (snd p)) cs) ds))"

definition addDoc :: "world \<Rightarrow> query_ref \<Rightarrow> fields \<Rightarrow> (store_error + string) \<times> world" where
  "addDoc w r payload =
     (let w1 = w\<lparr>requests := Suc (requests w)\<rparr>; i = auto_id w (requests w) in
      case fault w (requests w) of
        Some e \<Rightarrow> (Inl e, w1)
      | None \<Rightarrow>
          (case map_of (store w (q_coll r)) i of
             Some old \<Rightarrow> (Inl (StoreError ''already-exists''), w1)
           | None \<Rightarrow>
               (Inr i,
                w1\<lparr>store := (store w)(q_coll r := AList.update i payload (store w (q_coll r)))\<rparr>)))"

definition setDoc :: "world \<Rightarrow> doc_ref \<Rightarrow> fields \<Rightarrow> (store_error + unit) \<times> world" where
  "setDoc w r payload =
     (let w1 = w\<lparr>requests := Suc (requests w)\<rparr> in
      case fault w (requests w) of
        Some e \<Rightarrow> (Inl e, w1)
      | None \<Rightarrow>
          (Inr (),
           w1\<lparr>store := (store w)(fst r := AList.update (snd r) payload (store w (fst r)))\<rparr>))"

definition getDoc :: "world \<Rightarrow> doc_ref \<Rightarrow> (store_error + doc_snapshot) \<times> world" where
  "getDoc w r =
     (let w1 = w\<lparr>requests := Suc (requests w)\<rparr> in
      case fault w (requests w) of
        Some e \<Rightarrow> (Inl e, w1)
      | None \<Rightarrow> (Inr (snd r, map_of (store w (fst r)) (snd r)), w1))"

definition getDocs :: "world \<Rightarrow> query_ref \<Rightarrow> (store_error + query_snapshot) \<times> world" where
  "getDocs w q =
     (let w1 = w\<lparr>requests := Suc (requests w)\<rparr> in
      case fault w (requests w) of
        Some e \<Rightarrow> (Inl e, w1)
      | None \<Rightarrow> (Inr (run_query (q_constraints q) (store w (q_coll q))), w1))"

text \<open>
  A partial update merges the given fields into the stored ones and fails when there is
  no record at the identifier.
\<close>

definition updateDoc :: "world \<Rightarrow> doc_ref \<Rightarrow> fields \<Rightarrow> (store_error + unit) \<times> world" where
  "updateDoc w r payload =
     (let w1 = w\<lparr>requests := Suc (requests w)\<rparr> in
      case fault w (requests w) of
        Some e \<Rightarrow> (Inl e, w1)
      | None \<Rightarrow>
          (case map_of (store w (fst r)) (snd r) of
             None \<Rightarrow> (Inl (StoreError ''not-found''), w1)
           | Some old \<Rightarrow>
               (Inr (),
                w1\<lparr>store :=
                     (store w)(fst r := AList.update (snd r) (old ++ payload) (store w (fst r)))\<rparr>)))"

definition deleteDoc :: "world \<Rightarrow> doc_ref \<Rightarrow> (store_error + unit) \<times> world" where
  "deleteDoc w r =
     (let w1 = w\<lparr>requests := Suc (requests w)\<rparr> in
      case fault w (requests w) of
        Some e \<Rightarrow> (Inl e, w1)
      | None \<Rightarrow>
          (Inr (), w1\<lparr>store := (store w)(fst r := AList.delete (snd r) (store w (fst r)))\<rparr>))"

section \<open>The document store facade\<close>

text \<open>
  Each function of \<open>src/firebase/services.js\<close> as a function from the world to a result
  and the world after the call. A rejected promise (a \<open>throw\<close>) is \<open>Inl\<close> of the error.
\<close>

definition addDocument :: "world \<Rightarrow> string \<Rightarrow> fields \<Rightarrow> (store_error + string) \<times> world" where
  "addDocument w collectionName data =
     (case new_Date_toISOString w of (createdAt, w1) \<Rightarrow>
      case new_Date_toISOString w1 of (updatedAt, w2) \<Rightarrow>
      case addDoc w2 (collection collectionName)
             (data(''createdAt'' \<mapsto> Str createdAt, ''updatedAt'' \<mapsto> Str updatedAt)) of
        (Inr docRef_id, w3) \<Rightarrow> (Inr docRef_id, console_log w3 ''Document added with ID:'' docRef_id)
      | (Inl error, w3) \<Rightarrow> (Inl error, console_error w3 ''Error adding document:'' error))"

definition setDocument :: "world \<Rightarrow> string \<Rightarrow> string \<Rightarrow> fields \<Rightarrow> (store_error + unit) \<times> world" where
  "setDocument w collectionName documentId data =
     (case new_Date_toISOString w of (createdAt, w1) \<Rightarrow>
      case new_Date_toISOString w1 of (updatedAt, w2) \<Rightarrow>
      case setDoc w2 (doc collectionName documentId)
             (data(''createdAt'' \<mapsto> Str createdAt, ''updatedAt'' \<mapsto> Str updatedAt)) of
        (Inr u, w3) \<Rightarrow> (Inr (), console_log w3 ''Document set with ID:'' documentId)
      | (Inl error, w3) \<Rightarrow> (Inl error, console_error w3 ''Error setting document:'' error))"

text \<open>The absent sentinel \<open>null\<close> is \<open>None\<close>.\<close>

definition getDocument :: "world \<Rightarrow> string \<Rightarrow> string \<Rightarrow> (store_error + fields option) \<times> world" where
  "getDocument w collectionName documentId =
     (case getDoc w (doc collectionName documentId) of
        (Inr docSnap, w1) \<Rightarrow>
          (case snd docSnap of
             Some d \<Rightarrow> (Inr (Some ([''id'' \<mapsto> Str (fst docSnap)] ++ d)), w1)
           | None \<Rightarrow> (Inr None, console_log w1 ''No such document!'' []))
      | (Inl error, w1) \<Rightarrow> (Inl error, console_error w1 ''Error getting document:'' error))"

definition getAllDocuments :: "world \<Rightarrow> string \<Rightarrow> (store_error + fields list) \<times> world" where
  "getAllDocuments w collectionName =
     (case getDocs w (collection collectionName) of
        (Inr querySnapshot, w1) \<Rightarrow>
          (Inr (map (\<lambda>p. [''id'' \<mapsto> Str (fst p)] ++ snd p) querySnapshot), w1)
      | (Inl error, w1) \<Rightarrow> (Inl error, console_error w1 ''Error getting documents:'' error))"

text \<open>
  The tests \<open>if (orderByField)\<close> and \<open>if (limitCount)\<close> are JavaScript truthiness:
  \<open>null\<close>, the empty string and the number 0 are false.
\<close>

definition truthy_string :: "string option \<Rightarrow> bool" where
  "truthy_string x = (case x of None \<Rightarrow> False | Some s \<Rightarrow> s \<noteq> [])"

definition truthy_number :: "nat option \<Rightarrow> bool" where
  "truthy_number x = (case x of None \<Rightarrow> False | Some n \<Rightarrow> n \<noteq> 0)"

definition query_constraints ::
  "(string \<times> string \<times> val) list \<Rightarrow> string option \<Rightarrow> nat option \<Rightarrow> constraint list" where
  "query_constraints conditions orderByField limitCount =
     map (\<lambda>(field, operator, v). Where field operator v) conditions
     @ (case orderByField of
          Some field \<Rightarrow> (if truthy_string orderByField then [OrderBy field] else [])
        | None \<Rightarrow> [])
     @ (case limitCount of
          Some n \<Rightarrow> (if truthy_number limitCount then [Limit n] else [])
        | None \<Rightarrow> [])"

definition queryDocuments ::
  "world \<Rightarrow> string \<Rightarrow> (string \<times> string \<times> val) list \<Rightarrow> string option \<Rightarrow> nat option
     \<Rightarrow> (store_error + fields list) \<times> world" where
  "queryDocuments w collectionName conditions orderByField limitCount =
     (case query (collection collectionName)
             (query_constraints conditions orderByField limitCount) of
        Inl error \<Rightarrow> (Inl error, console_error w ''Error querying documents:'' error)
      | Inr q \<Rightarrow>
          (case getDocs w q of
             (Inr querySnapshot, w1) \<Rightarrow>
               (Inr (map (\<lambda>p. [''id'' \<mapsto> Str (fst p)] ++ snd p) querySnapshot), w1)
           | (Inl error, w1) \<Rightarrow>
               (Inl error, console_error w1 ''Error querying documents:'' error)))"

definition updateDocument ::
  "world \<Rightarrow> string \<Rightarrow> string \<Rightarrow> fields \<Rightarrow> (store_error + unit) \<times> world" where
  "updateDocument w collectionName documentId data =
     (case new_Date_toISOString w of (updatedAt, w1) \<Rightarrow>
      case updateDoc w1 (doc collectionName documentId)
             (data(''updatedAt'' \<mapsto> Str updatedAt)) of
        (Inr u, w2) \<Rightarrow> (Inr (), console_log w2 ''Document updated:'' documentId)
      | (Inl error, w2) \<Rightarrow> (Inl error, console_error w2 ''Error updating document:'' error))"

definition deleteDocument :: "world \<Rightarrow> string \<Rightarrow> string \<Rightarrow> (store_error + unit) \<times> world" where
  "deleteDocument w collectionName documentId =
     (case deleteDoc w (doc collectionName documentId) of
        (Inr u, w1) \<Rightarrow> (Inr (), console_log w1 ''Document deleted:'' documentId)
      | (Inl error, w1) \<Rightarrow> (Inl error, console_error w1 ''Error deleting document:'' error))"

section \<open>Real-time listeners\<close>

text \<open>
  Modelled from the spec: the subscription primitive \<open>onSnapshot\<close> of the document store
  client, which is not among the sources. It registers a handler for snapshots and a
  handler for errors on a target; the store then delivers events to it. A snapshot goes to
  the first handler; a failure goes to the second and ends the subscription (section 4.1:
  no automatic reconnect); after the end, or after \<open>unsubscribe\<close>, nothing is delivered.

  What a handler does is recorded as a list of effects: an invocation of the caller's
  callback with its argument, or a line on the console.
\<close>

datatype 'a effect =
    Invoke 'a
  | Console console_entry

datatype 's event =
    Snapshot 's
  | Failure store_error

record ('t, 's, 'a) subscription =
  target :: 't
  on_next :: "'s \<Rightarrow> 'a effect list"
  on_error :: "store_error \<Rightarrow> 'a effect list"
  active :: bool

definition onSnapshot ::
  "'t \<Rightarrow> ('s \<Rightarrow> 'a effect list) \<Rightarrow> (store_error \<Rightarrow> 'a effect list) \<Rightarrow> ('t, 's, 'a) subscription" where
  "onSnapshot t next error = \<lparr>target = t, on_next = next, on_error = error, active = True\<rparr>"

definition deliver ::
  "('t, 's, 'a) subscription \<Rightarrow> 's event \<Rightarrow> 'a effect list \<times> ('t, 's, 'a) subscription" where
  "deliver s ev =
     (if active s
      then (case ev of
              Snapshot x \<Rightarrow> (on_next s x, s)
            | Failure e \<Rightarrow> (on_error s e, s\<lparr>active := False\<rparr>))
      else ([], s))"

definition unsubscribe :: "('t, 's, 'a) subscription \<Rightarrow> ('t, 's, 'a) subscription" where
  "unsubscribe s = s\<lparr>active := False\<rparr>"

text \<open>Whether an effect is one the caller of the facade receives.\<close>

fun reaches_caller :: "'a effect \<Rightarrow> bool" where
  "reaches_caller (Invoke x) = True"
| "reaches_caller (Console c) = False"

text \<open>
  The two listeners of \<open>src/firebase/services.js\<close>. The parameter \<open>callback\<close> of the
  source is the effect \<open>Invoke\<close>. \<open>listenToCollection\<close> composes its query outside any
  \<open>try\<close>, so a rejected condition is thrown to the caller at once (\<open>Inl\<close>).
\<close>

definition listenToDocument ::
  "string \<Rightarrow> string \<Rightarrow> (doc_ref, doc_snapshot, fields option) subscription" where
  "listenToDocument collectionName documentId =
     onSnapshot (doc collectionName documentId)
       (\<lambda>d. case snd d of
               Some x \<Rightarrow> [Invoke (Some ([''id'' \<mapsto> Str (fst d)] ++ x))]
             | None \<Rightarrow> [Invoke None])
       (\<lambda>error. [Console (Err ''Error listening to document:'' error)])"

definition listenToCollection ::
  "string \<Rightarrow> (string \<times> string \<times> val) list
     \<Rightarrow> store_error + (query_ref, query_snapshot, fields list) subscription" where
  "listenToCollection collectionName conditions =
     (case (if 0 < length conditions
            then query (collection collectionName)
                   (map (\<lambda>(field, operator, v). Where field operator v) conditions)
            else Inr (collection collectionName)) of
        Inl error \<Rightarrow> Inl error
      | Inr q \<Rightarrow>
          Inr (onSnapshot q
                 (\<lambda>querySnapshot.
                    [Invoke (map (\<lambda>p. [''id'' \<mapsto> Str (fst p)] ++ snd p) querySnapshot)])
                 (\<lambda>error. [Console (Err ''Error listening to collection:'' error)])))"

section \<open>The record management view\<close>

text \<open>
  The state of \<open>DashboardPage\<close> (\<open>src/pages/DashboardPage.jsx\<close>): the five \<open>useState\<close>
  cells, and the messages shown by \<open>alert\<close>, oldest first. The editing identifier is
  \<open>null\<close> (\<open>None\<close>) or a string.
\<close>

record view =
  students :: "fields list"
  loading :: bool
  showModal :: bool
  editingId :: "string option"
  formData :: fields
  alerts :: "string list"

definition alert :: "view \<Rightarrow> string \<Rightarrow> view" where
  "alert v msg = v\<lparr>alerts := alerts v @ [msg]\<rparr>"

definition empty_form :: fields where
  "empty_form =
     [''studentId'' \<mapsto> Str [], ''name'' \<mapsto> Str [], ''course'' \<mapsto> Str [],
      ''yearLevel'' \<mapsto> Str [], ''email'' \<mapsto> Str []]"

definition loadStudents :: "world \<Rightarrow> view \<Rightarrow> view \<times> world" where
  "loadStudents w v =
     (case getAllDocuments w ''students'' of
        (Inr data, w1) \<Rightarrow> (v\<lparr>loading := True\<rparr>\<lparr>students := data\<rparr>\<lparr>loading := False\<rparr>, w1)
      | (Inl error, w1) \<Rightarrow>
          ((alert (v\<lparr>loading := True\<rparr>) ''Failed to load students'')\<lparr>loading := False\<rparr>,
           console_error w1 ''Error loading students:'' error))"

definition resetForm :: "view \<Rightarrow> view" where
  "resetForm v = v\<lparr>formData := empty_form, editingId := None, showModal := False\<rparr>"

text \<open>
  \<open>handleSubmit\<close>: the test \<open>if (editingId)\<close> is truthiness, so \<open>null\<close> and the empty
  string both take the branch that adds. \<open>loadStudents()\<close> is started last and not
  awaited; nothing follows it, so it is run to its end here.
\<close>

definition handleSubmit :: "world \<Rightarrow> view \<Rightarrow> view \<times> world" where
  "handleSubmit w v =
     (if truthy_string (editingId v)
      then (case updateDocument w ''students'' (the (editingId v)) (formData v) of
              (Inr u, w1) \<Rightarrow>
                loadStudents w1 (resetForm (alert v ''Student updated successfully!''))
            | (Inl error, w1) \<Rightarrow>
                (alert v ''Failed to save student'',
                 console_error w1 ''Error saving student:'' error))
      else (case addDocument w ''students'' (formData v) of
              (Inr i, w1) \<Rightarrow>
                loadStudents w1 (resetForm (alert v ''Student added successfully!''))
            | (Inl error, w1) \<Rightarrow>
                (alert v ''Failed to save student'',
                 console_error w1 ''Error saving student:'' error)))"

section \<open>Example worlds\<close>

text \<open>
  A store with one student, written earlier by a browser whose clock ran five minutes
  ahead (the facade stamps with the clock of the browser it runs in); a client that
  answers every request; a clock that reads the same millisecond throughout.
\<close>

definition students0 :: "(string \<times> fields) list" where
  "students0 =
     [(''s1'',
       [''name'' \<mapsto> Str ''Ana'',
        ''email'' \<mapsto> Str ''ana@g.msuiit.edu.ph'',
        ''createdAt'' \<mapsto> Str ''2020-01-01T00:00:00.000Z'',
        ''updatedAt'' \<mapsto> Str ''2026-11-03T10:05:00.000Z''])]"

definition world0 :: world where
  "world0 =
     \<lparr>store = (\<lambda>c. if c = ''students'' then students0 else []),
      fault = (\<lambda>k. None),
      auto_id = (\<lambda>k. replicate (Suc k) CHR ''A''),
      requests = 0,
      wall = (\<lambda>n. ''2026-11-03T10:00:00.000Z''),
      reads = 0,
      console = []\<rparr>"

text \<open>The same world with a client whose every request fails.\<close>

definition offline :: store_error where
  "offline = StoreError ''unavailable''"

definition world_down :: world where
  "world_down = world0\<lparr>fault := (\<lambda>k. Some offline)\<rparr>"

text \<open>A stored record that has a domain field named \<open>id\<close>.\<close>

definition juan :: fields where
  "juan = [''id'' \<mapsto> Str ''2021-12345'', ''name'' \<mapsto> Str ''Juan Dela Cruz'']"

definition world_id :: world where
  "world_id = world0\<lparr>store := (\<lambda>c. if c = ''students'' then [(''s2'', juan)] else [])\<rparr>"

text \<open>Three students, stored in an order that is not that of their names.\<close>

definition world_three :: world where
  "world_three =
     world0\<lparr>store := (\<lambda>c. if c = ''students''
                         then [(''a'', [''name'' \<mapsto> Str ''Cy'']),
                               (''b'', [''name'' \<mapsto> Str ''Ana'']),
                               (''c'', [''name'' \<mapsto> Str ''Bea''])]
                         else [])\<rparr>"

definition view0 :: view where
  "view0 =
     \<lparr>students = [], loading = False, showModal = True, editingId = Some ''s1'',
      formData = [''name'' \<mapsto> Str ''Ana'', ''email'' \<mapsto> Str ''ana@example.org''],
      alerts = []\<rparr>"

section \<open>What the reading functions return\<close>

lemma id_then_spread:
  "([''id'' \<mapsto> Str j] ++ d) f =
     (case d f of Some x \<Rightarrow> Some x | None \<Rightarrow> if f = ''id'' then Some (Str j) else None)"
  by (simp add: map_add_def split: option.splits)

lemma getAllDocuments_Inr:
  "fst (getAllDocuments w c) = Inr rs \<Longrightarrow>
   rs = map (\<lambda>p. [''id'' \<mapsto> Str (fst p)] ++ snd p) (store w c)"
  by (auto simp: getAllDocuments_def getDocs_def collection_def run_query_def capped_def
      ordered_def Let_def split: option.splits)

lemma queryDocuments_Inr:
  "fst (queryDocuments w c conds ob lim) = Inr rs \<Longrightarrow>
   rs = map (\<lambda>p. [''id'' \<mapsto> Str (fst p)] ++ snd p)
          (run_query (query_constraints conds ob lim) (store w c))"
  by (auto simp: queryDocuments_def getDocs_def collection_def query_def Let_def
      split: option.splits sum.splits if_splits)

section \<open>What a composed query selects\<close>

lemma order_fields_append: "order_fields (xs @ ys) = order_fields xs @ order_fields ys"
  by (induction xs rule: order_fields.induct) simp_all

lemma limit_of_append:
  "limit_of (xs @ ys) = (case limit_of ys of None \<Rightarrow> limit_of xs | Some m \<Rightarrow> Some m)"
  by (induction xs rule: limit_of.induct) (simp_all split: option.splits)

lemma order_fields_conditions:
  "order_fields (map (\<lambda>(field, operator, v). Where field operator v) conds) = []"
  by (induction conds) (simp_all split: prod.splits)

lemma limit_of_conditions:
  "limit_of (map (\<lambda>(field, operator, v). Where field operator v) conds) = None"
  by (induction conds) (simp_all split: prod.splits)

lemma order_fields_query_constraints:
  "order_fields (query_constraints conds ob lim) =
     (case ob of None \<Rightarrow> [] | Some f \<Rightarrow> if f = [] then [] else [f])"
  by (simp add: query_constraints_def order_fields_append order_fields_conditions
      truthy_string_def truthy_number_def split: option.splits)

lemma limit_of_query_constraints:
  "limit_of (query_constraints conds ob lim) =
     (case lim of None \<Rightarrow> None | Some n \<Rightarrow> if n = 0 then None else Some n)"
  by (simp add: query_constraints_def limit_of_append limit_of_conditions
      truthy_string_def truthy_number_def split: option.splits)

lemma matches_query_constraints:
  "f \<noteq> [] \<Longrightarrow> list_all (\<lambda>c. matches c d) (query_constraints conds (Some f) lim) \<Longrightarrow> d f \<noteq> None"
  by (simp add: query_constraints_def truthy_string_def)

lemma set_capped: "set (capped l ds) \<subseteq> set ds"
  by (auto simp: capped_def split: option.splits dest: in_set_takeD)

lemma sorted_capped: "sorted (map g ds) \<Longrightarrow> sorted (map g (capped l ds))"
  by (simp add: capped_def take_map [symmetric] sorted_wrt_take split: option.splits)

lemma length_capped: "length (capped (Some n) ds) \<le> n"
  by (simp add: capped_def)


lemma run_query_length:
  "0 < n \<Longrightarrow> length (run_query (query_constraints conds ob (Some n)) ds) \<le> n"
  by (simp add: run_query_def limit_of_query_constraints length_capped)

lemma set_ordered: "set (ordered fs ds) = set ds"
  by (induction fs) (simp_all add: ordered_def)

lemma run_query_selects:
  assumes "p \<in> set (run_query cs ds)"
  shows "p \<in> set ds \<and> list_all (\<lambda>c. matches c (snd p)) cs"
proof -
  have "set (run_query cs ds) \<subseteq> set (filter (\<lambda>p. list_all (\<lambda>c. matches c (snd p)) cs) ds)"
    unfolding run_query_def using set_capped set_ordered by metis
  with assms show ?thesis
    by auto
qed

lemma run_query_carries_field:
  assumes "f \<noteq> []" and "p \<in> set (run_query (query_constraints conds (Some f) lim) ds)"
  shows "snd p f \<noteq> None"
  using assms run_query_selects matches_query_constraints by blast

lemma run_query_sorted:
  "f \<noteq> [] \<Longrightarrow> sorted (map (field_key f) (run_query (query_constraints conds (Some f) lim) ds))"
  by (simp add: run_query_def ordered_def order_fields_query_constraints sorted_capped)

lemma record_key_annotated:
  "d f \<noteq> None \<Longrightarrow> record_key f ([''id'' \<mapsto> Str i] ++ d) = record_key f d"
  by (auto simp: record_key_def map_add_def split: option.splits)

lemma annotated_keys:
  assumes "\<And>p. p \<in> set sel \<Longrightarrow> snd p f \<noteq> None"
  shows "map (record_key f) (map (\<lambda>p. [''id'' \<mapsto> Str (fst p)] ++ snd p) sel) = map (field_key f) sel"
  using assms by (induction sel) (simp_all add: record_key_annotated field_key_def)

section \<open>Reading\<close>

text \<open>
  C1. A query with an empty condition list, no ordering field and no limit returns what
  \<open>getAllDocuments\<close> returns on the same collection in the same world: the same sequence
  of records, or the same error when the request fails.
\<close>

theorem query_without_constraints_is_getAll:
  "fst (queryDocuments w c [] None None) = fst (getAllDocuments w c)"
  by (simp add: queryDocuments_def getAllDocuments_def query_constraints_def query_def
      collection_def getDocs_def Let_def split: option.splits prod.splits sum.splits)

text \<open>
  C5, as amended. \<open>getDocument\<close> fails exactly when the request to the store fails, and
  with that error. Otherwise it returns the absent sentinel when there is no record at the
  identifier, and a missing record is never an error. When there is a record it returns
  every stored field with its stored value and, only if the stored fields have no field
  \<open>id\<close>, the document identifier at \<open>id\<close>.
\<close>

theorem getDocument_absent_or_annotated:
  "fst (getDocument w c i) =
     (case fault w (requests w) of
        Some e \<Rightarrow> Inl e
      | None \<Rightarrow>
          (case map_of (store w c) i of
             None \<Rightarrow> Inr None
           | Some d \<Rightarrow> Inr (Some ([''id'' \<mapsto> Str i] ++ d)))) \<and>
   (fault w (requests w) = None \<longrightarrow> map_of (store w c) i = Some d \<longrightarrow>
      (\<exists>r. fst (getDocument w c i) = Inr (Some r) \<and>
           (\<forall>f. r f =
              (case d f of
                 Some x \<Rightarrow> Some x
               | None \<Rightarrow> if f = ''id'' then Some (Str i) else None))))"
  by (simp add: getDocument_def getDoc_def doc_def Let_def id_then_spread split: option.splits)

theorem getDocument_absent_or_annotated_witness:
  "fault world0 (requests world0) = None \<and>
   map_of (store world0 ''students'') ''s1'' = Some (snd (hd students0)) \<and>
   (case fst (getDocument world0 ''students'' ''s1'') of
      Inr (Some r) \<Rightarrow> [r ''id'', r ''name'', r ''course'']
    | _ \<Rightarrow> []) = [Some (Str ''s1''), Some (Str ''Ana''), None] \<and>
   fst (getDocument world0 ''students'' ''nobody'') = Inr None \<and>
   fst (getDocument world_down ''students'' ''s1'') = Inl offline"
  using getDocument_absent_or_annotated
    [where w = world0 and c = "''students''" and i = "''s1''" and d = "snd (hd students0)"]
    getDocument_absent_or_annotated
    [where w = world0 and c = "''students''" and i = "''nobody''"]
    getDocument_absent_or_annotated
    [where w = world_down and c = "''students''" and i = "''s1''"]
  by (simp add: world_down_def world0_def students0_def offline_def)

text \<open>
  C5 as stated fails where it says the record comes back annotated with its identifier: for
  the document \<open>s2\<close>, whose stored fields have an \<open>id\<close> of their own, the record returned
  has that stored value at \<open>id\<close>, and the document identifier is nowhere in it.
\<close>

theorem getDocument_identifier_shadowed_counterexample:
  "map_of (store world_id ''students'') ''s2'' = Some juan \<and>
   (case fst (getDocument world_id ''students'' ''s2'') of
      Inr (Some r) \<Rightarrow> r ''id''
    | _ \<Rightarrow> None) = Some (Str ''2021-12345'') \<and>
   Str ''2021-12345'' \<noteq> Str ''s2''"
  by (simp add: world_id_def world0_def juan_def getDocument_def getDoc_def doc_def Let_def)

text \<open>
  C9. Every reading path builds its record by placing the annotation \<open>id\<close> first and
  spreading the stored fields over it. So the record handed out for a document has every
  stored field with its stored value; at \<open>id\<close> it has the document identifier when the
  stored fields have no \<open>id\<close>, and the stored value, not the document identifier, when
  they have one. This holds in \<open>getDocument\<close>, at each position of the results of
  \<open>getAllDocuments\<close> and \<open>queryDocuments\<close>, and in the argument of the callback of both
  listeners.
\<close>

theorem stored_id_field_shadows_document_id:
  "(fault w (requests w) = None \<longrightarrow> map_of (store w c) i = Some d \<longrightarrow>
      (\<exists>r. fst (getDocument w c i) = Inr (Some r) \<and>
           (\<forall>f. r f =
              (case d f of
                 Some x \<Rightarrow> Some x
               | None \<Rightarrow> if f = ''id'' then Some (Str i) else None)))) \<and>
   (\<forall>rs. fst (getAllDocuments w c) = Inr rs \<longrightarrow>
      length rs = length (store w c) \<and>
      (\<forall>k f. k < length (store w c) \<longrightarrow>
         (rs ! k) f =
           (case snd (store w c ! k) f of
              Some x \<Rightarrow> Some x
            | None \<Rightarrow> if f = ''id'' then Some (Str (fst (store w c ! k))) else None))) \<and>
   (\<forall>rs. fst (queryDocuments w c conds ob lim) = Inr rs \<longrightarrow>
      length rs = length (run_query (query_constraints conds ob lim) (store w c)) \<and>
      (\<forall>k f. k < length (run_query (query_constraints conds ob lim) (store w c)) \<longrightarrow>
         (rs ! k) f =
           (case snd (run_query (query_constraints conds ob lim) (store w c) ! k) f of
              Some x \<Rightarrow> Some x
            | None \<Rightarrow>
                if f = ''id''
                then Some (Str (fst (run_query (query_constraints conds ob lim) (store w c) ! k)))
                else None))) \<and>
   (\<exists>r. fst (deliver (listenToDocument c i) (Snapshot (j, Some d))) = [Invoke (Some r)] \<and>
        (\<forall>f. r f =
           (case d f of
              Some x \<Rightarrow> Some x
            | None \<Rightarrow> if f = ''id'' then Some (Str j) else None))) \<and>
   (\<forall>s qs. listenToCollection c conds = Inr s \<longrightarrow>
      (\<exists>rs. fst (deliver s (Snapshot qs)) = [Invoke rs] \<and> length rs = length qs \<and>
            (\<forall>k f. k < length qs \<longrightarrow>
               (rs ! k) f =
                 (case snd (qs ! k) f of
                    Some x \<Rightarrow> Some x
                  | None \<Rightarrow> if f = ''id'' then Some (Str (fst (qs ! k))) else None))))"
proof (intro conjI allI impI)
  assume "fault w (requests w) = None" "map_of (store w c) i = Some d"
  then show "\<exists>r. fst (getDocument w c i) = Inr (Some r) \<and>
           (\<forall>f. r f =
              (case d f of
                 Some x \<Rightarrow> Some x
               | None \<Rightarrow> if f = ''id'' then Some (Str i) else None))"
    by (simp add: getDocument_def getDoc_def doc_def Let_def id_then_spread)
next
  fix rs
  assume "fst (getAllDocuments w c) = Inr rs"
  then have rs: "rs = map (\<lambda>p. [''id'' \<mapsto> Str (fst p)] ++ snd p) (store w c)"
    by (rule getAllDocuments_Inr)
  show "length rs = length (store w c)"
    by (simp add: rs)
  fix k f
  assume "k < length (store w c)"
  then show "(rs ! k) f =
           (case snd (store w c ! k) f of
              Some x \<Rightarrow> Some x
            | None \<Rightarrow> if f = ''id'' then Some (Str (fst (store w c ! k))) else None)"
    by (simp add: rs id_then_spread)
next
  fix rs
  let ?sel = "run_query (query_constraints conds ob lim) (store w c)"
  assume "fst (queryDocuments w c conds ob lim) = Inr rs"
  then have rs: "rs = map (\<lambda>p. [''id'' \<mapsto> Str (fst p)] ++ snd p) ?sel"
    by (rule queryDocuments_Inr)
  show "length rs = length ?sel"
    by (simp add: rs)
  fix k f
  assume "k < length ?sel"
  then show "(rs ! k) f =
           (case snd (?sel ! k) f of
              Some x \<Rightarrow> Some x
            | None \<Rightarrow> if f = ''id'' then Some (Str (fst (?sel ! k))) else None)"
    by (simp add: rs id_then_spread)
next
  show "\<exists>r. fst (deliver (listenToDocument c i) (Snapshot (j, Some d))) = [Invoke (Some r)] \<and>
        (\<forall>f. r f =
           (case d f of
              Some x \<Rightarrow> Some x
            | None \<Rightarrow> if f = ''id'' then Some (Str j) else None))"
    by (simp add: deliver_def listenToDocument_def onSnapshot_def id_then_spread)
next
  fix s :: "(query_ref, query_snapshot, fields list) subscription" and qs
  assume "listenToCollection c conds = Inr s"
  then have "fst (deliver s (Snapshot qs)) =
      [Invoke (map (\<lambda>p. [''id'' \<mapsto> Str (fst p)] ++ snd p) qs)]"
    by (auto simp: listenToCollection_def deliver_def onSnapshot_def split: sum.splits if_splits)
  then show "\<exists>rs. fst (deliver s (Snapshot qs)) = [Invoke rs] \<and> length rs = length qs \<and>
            (\<forall>k f. k < length qs \<longrightarrow>
               (rs ! k) f =
                 (case snd (qs ! k) f of
                    Some x \<Rightarrow> Some x
                  | None \<Rightarrow> if f = ''id'' then Some (Str (fst (qs ! k))) else None))"
    by (simp add: id_then_spread)
qed

theorem stored_id_field_shadows_document_id_witness:
  "juan ''id'' = Some (Str ''2021-12345'') \<and>
   fault world_id (requests world_id) = None \<and>
   map_of (store world_id ''students'') ''s2'' = Some juan \<and>
   store world_id ''students'' ! 0 = (''s2'', juan) \<and>
   (case fst (getDocument world_id ''students'' ''s2'') of
      Inr (Some r) \<Rightarrow> r ''id''
    | _ \<Rightarrow> None) = Some (Str ''2021-12345'') \<and>
   (case fst (getAllDocuments world_id ''students'') of
      Inr rs \<Rightarrow> map (\<lambda>r. r ''id'') rs
    | Inl e \<Rightarrow> []) = [Some (Str ''2021-12345'')] \<and>
   (case fst (queryDocuments world_id ''students'' [] None None) of
      Inr rs \<Rightarrow> map (\<lambda>r. r ''id'') rs
    | Inl e \<Rightarrow> []) = [Some (Str ''2021-12345'')] \<and>
   (case fst (deliver (listenToDocument ''students'' ''s2'') (Snapshot (''s2'', Some juan))) of
      [Invoke (Some r)] \<Rightarrow> r ''id''
    | _ \<Rightarrow> None) = Some (Str ''2021-12345'') \<and>
   (case listenToCollection ''students'' [] of
      Inr s \<Rightarrow>
        (case fst (deliver s (Snapshot [(''s2'', juan)])) of
           [Invoke rs] \<Rightarrow> map (\<lambda>r. r ''id'') rs
         | _ \<Rightarrow> [])
    | Inl e \<Rightarrow> []) = [Some (Str ''2021-12345'')] \<and>
   snd (hd students0) ''id'' = None \<and>
   (case fst (getDocument world0 ''students'' ''s1'') of
      Inr (Some r) \<Rightarrow> [r ''id'', r ''name'']
    | _ \<Rightarrow> []) = [Some (Str ''s1''), Some (Str ''Ana'')] \<and>
   (case fst (getAllDocuments world0 ''students'') of
      Inr rs \<Rightarrow> map (\<lambda>r. r ''id'') rs
    | Inl e \<Rightarrow> []) = [Some (Str ''s1'')] \<and>
   (case fst (queryDocuments world0 ''students'' [] None None) of
      Inr rs \<Rightarrow> map (\<lambda>r. r ''id'') rs
    | Inl e \<Rightarrow> []) = [Some (Str ''s1'')] \<and>
   (case fst (deliver (listenToDocument ''students'' ''s1'')
                (Snapshot (''s1'', Some (snd (hd students0))))) of
      [Invoke (Some r)] \<Rightarrow> r ''id''
    | _ \<Rightarrow> None) = Some (Str ''s1'') \<and>
   (case listenToCollection ''students'' [] of
      Inr s \<Rightarrow>
        (case fst (deliver s (Snapshot students0)) of
           [Invoke rs] \<Rightarrow> map (\<lambda>r. r ''id'') rs
         | _ \<Rightarrow> [])
    | Inl e \<Rightarrow> []) = [Some (Str ''s1'')]"
  using stored_id_field_shadows_document_id
    [where d = juan and w = world_id and c = "''students''"
       and i = "''s2''" and j = "''s2''" and conds = "[]" and ob = None and lim = None]
    stored_id_field_shadows_document_id
    [where d = "snd (hd students0)" and w = world0 and c = "''students''"
       and i = "''s1''" and j = "''s1''" and conds = "[]" and ob = None and lim = None]
  by (simp add: juan_def world_id_def world0_def students0_def getDocument_def getDoc_def
      doc_def getAllDocuments_def getDocs_def collection_def run_query_def capped_def
      ordered_def queryDocuments_def query_def query_constraints_def listenToDocument_def
      listenToCollection_def deliver_def onSnapshot_def Let_def)

text \<open>
  C4, as amended. When \<open>queryDocuments\<close> returns records: with a limit \<open>n\<close> greater than
  zero there are at most \<open>n\<close> of them; with a non-empty ordering field they all carry that
  field and are in ascending order of it; and a limit of 0 is the same as no limit.
\<close>

theorem query_limit_and_order:
  assumes "fst (queryDocuments w c conds ob lim) = Inr rs"
  shows "(lim = Some n \<longrightarrow> 0 < n \<longrightarrow> length rs \<le> n) \<and>
         (ob = Some f \<longrightarrow> f \<noteq> [] \<longrightarrow>
            sorted (map (record_key f) rs) \<and> list_all (\<lambda>r. r f \<noteq> None) rs) \<and>
         fst (queryDocuments w c conds ob (Some 0)) = fst (queryDocuments w c conds ob None)"
proof (intro conjI impI)
  let ?sel = "run_query (query_constraints conds ob lim) (store w c)"
  have rs: "rs = map (\<lambda>p. [''id'' \<mapsto> Str (fst p)] ++ snd p) ?sel"
    using assms by (rule queryDocuments_Inr)
  {
    assume "lim = Some n" "0 < n"
    then show "length rs \<le> n"
      by (simp add: rs run_query_length)
  }
  {
    assume ob: "ob = Some f" "f \<noteq> []"
    then have carries: "\<And>p. p \<in> set ?sel \<Longrightarrow> snd p f \<noteq> None"
      using run_query_carries_field by blast
    then have "map (record_key f) rs = map (field_key f) ?sel"
      unfolding rs by (rule annotated_keys)
    then show "sorted (map (record_key f) rs)"
      using ob by (simp add: run_query_sorted)
    show "list_all (\<lambda>r. r f \<noteq> None) rs"
      using carries by (auto simp: rs list_all_iff map_add_def split: option.splits)
  }
  show "fst (queryDocuments w c conds ob (Some 0)) = fst (queryDocuments w c conds ob None)"
    by (simp add: queryDocuments_def query_constraints_def truthy_number_def)
qed

theorem query_limit_and_order_witness:
  "(case fst (queryDocuments world_three ''students'' [] (Some ''name'') (Some 2)) of
      Inr rs \<Rightarrow>
        length rs \<le> 2 \<and> sorted (map (record_key ''name'') rs) \<and>
        map (\<lambda>r. r ''name'') rs = [Some (Str ''Ana''), Some (Str ''Bea'')] \<and>
        map (\<lambda>r. r ''id'') rs = [Some (Str ''b''), Some (Str ''c'')]
    | Inl e \<Rightarrow> False)"
  using query_limit_and_order
    [where w = world_three and c = "''students''" and conds = "[]" and ob = "Some ''name''"
       and lim = "Some 2" and n = 2 and f = "''name''"
       and rs = "projr (fst (queryDocuments world_three ''students'' [] (Some ''name'') (Some 2)))"]
  by (simp add: world_three_def world0_def queryDocuments_def query_def query_constraints_def
      truthy_string_def truthy_number_def collection_def getDocs_def run_query_def capped_def
      ordered_def field_key_def record_key_def)
text \<open>
  C4 as stated fails at the limit 0, which the test \<open>if (limitCount)\<close> takes for no limit:
  on a collection of one record the query with limit 0 returns one record, not at most 0.
\<close>

theorem query_limit_zero_counterexample:
  "(case fst (queryDocuments world0 ''students'' [] None (Some 0)) of
      Inr rs \<Rightarrow> length rs
    | Inl e \<Rightarrow> 0) = 1"
  by (simp add: queryDocuments_def query_constraints_def truthy_number_def query_def
      collection_def getDocs_def run_query_def capped_def ordered_def world0_def students0_def)

section \<open>Writing\<close>

text \<open>
  C3. When the request succeeds, \<open>setDocument\<close> leaves at the identifier the given data
  with both timestamps set to the two readings of the clock taken during the call,
  whatever the store held at that identifier before and whatever the data said: the
  creation timestamp of a record that existed is overwritten.
\<close>

theorem setDocument_stamps_both:
  assumes "fault w (requests w) = None"
  shows "fst (setDocument w c i d) = Inr () \<and>
         map_of (store (snd (setDocument w c i d)) c) i =
           Some (d(''createdAt'' \<mapsto> Str (wall w (reads w)),
                   ''updatedAt'' \<mapsto> Str (wall w (Suc (reads w)))))"
  using assms
  by (simp add: setDocument_def setDoc_def doc_def new_Date_toISOString_def Let_def
      console_log_def update_conv')

theorem setDocument_stamps_both_witness:
  "fault world0 (requests world0) = None \<and>
   map_of (store world0 ''students'') ''s1'' \<noteq> None \<and>
   fst (setDocument world0 ''students'' ''s1'' [''name'' \<mapsto> Str ''Bea'']) = Inr () \<and>
   map_of (store (snd (setDocument world0 ''students'' ''s1'' [''name'' \<mapsto> Str ''Bea'']))
             ''students'') ''s1'' =
     Some [''name'' \<mapsto> Str ''Bea'',
           ''createdAt'' \<mapsto> Str ''2026-11-03T10:00:00.000Z'',
           ''updatedAt'' \<mapsto> Str ''2026-11-03T10:00:00.000Z'']"
  using setDocument_stamps_both [of world0 "''students''" "''s1''" "[''name'' \<mapsto> Str ''Bea'']"]
  by (simp add: world0_def students0_def)

text \<open>
  C10, as amended. When the request succeeds, \<open>addDocument\<close> and \<open>setDocument\<close> store the
  readings of the clock at \<open>createdAt\<close> and \<open>updatedAt\<close> whatever the data said at those
  fields. \<open>updateDocument\<close> stamps \<open>updatedAt\<close> only: a \<open>createdAt\<close> in its data is
  written as given, and without one the stored creation timestamp stays.
\<close>

theorem write_stamps_override_caller_fields:
  assumes "fault w (requests w) = None"
  shows
    "(map_of (store w c) (auto_id w (requests w)) = None \<longrightarrow>
        fst (addDocument w c d) = Inr (auto_id w (requests w)) \<and>
        (\<exists>r. map_of (store (snd (addDocument w c d)) c) (auto_id w (requests w)) = Some r \<and>
             r ''createdAt'' = Some (Str (wall w (reads w))) \<and>
             r ''updatedAt'' = Some (Str (wall w (Suc (reads w)))))) \<and>
     (\<exists>r. map_of (store (snd (setDocument w c i d)) c) i = Some r \<and>
          r ''createdAt'' = Some (Str (wall w (reads w))) \<and>
          r ''updatedAt'' = Some (Str (wall w (Suc (reads w))))) \<and>
     (map_of (store w c) i = Some old \<longrightarrow>
        (\<exists>r. map_of (store (snd (updateDocument w c i d)) c) i = Some r \<and>
             r ''updatedAt'' = Some (Str (wall w (reads w))) \<and>
             r ''createdAt'' =
               (case d ''createdAt'' of Some x \<Rightarrow> Some x | None \<Rightarrow> old ''createdAt'')))"
proof (intro conjI impI)
  assume "map_of (store w c) (auto_id w (requests w)) = None"
  then show "fst (addDocument w c d) = Inr (auto_id w (requests w))"
    "\<exists>r. map_of (store (snd (addDocument w c d)) c) (auto_id w (requests w)) = Some r \<and>
             r ''createdAt'' = Some (Str (wall w (reads w))) \<and>
             r ''updatedAt'' = Some (Str (wall w (Suc (reads w))))"
    using assms
    by (simp_all add: addDocument_def addDoc_def collection_def new_Date_toISOString_def
        Let_def console_log_def update_conv')
next
  show "\<exists>r. map_of (store (snd (setDocument w c i d)) c) i = Some r \<and>
          r ''createdAt'' = Some (Str (wall w (reads w))) \<and>
          r ''updatedAt'' = Some (Str (wall w (Suc (reads w))))"
    using assms
    by (simp add: setDocument_def setDoc_def doc_def new_Date_toISOString_def Let_def
        console_log_def update_conv')
next
  assume "map_of (store w c) i = Some old"
  then show "\<exists>r. map_of (store (snd (updateDocument w c i d)) c) i = Some r \<and>
             r ''updatedAt'' = Some (Str (wall w (reads w))) \<and>
             r ''createdAt'' =
               (case d ''createdAt'' of Some x \<Rightarrow> Some x | None \<Rightarrow> old ''createdAt'')"
    using assms
    by (simp add: updateDocument_def updateDoc_def doc_def new_Date_toISOString_def Let_def
        console_log_def update_conv' map_add_def split: option.splits)
qed

theorem write_stamps_override_caller_fields_witness:
  "fault world0 (requests world0) = None \<and>
   map_of (store world0 ''students'') (auto_id world0 (requests world0)) = None \<and>
   map_of (store world0 ''students'') ''s1'' = Some (snd (hd students0)) \<and>
   fst (addDocument world0 ''students''
          [''createdAt'' \<mapsto> Str ''1999'', ''updatedAt'' \<mapsto> Str ''1999'']) = Inr ''A'' \<and>
   (case map_of (store (snd (addDocument world0 ''students''
            [''createdAt'' \<mapsto> Str ''1999'', ''updatedAt'' \<mapsto> Str ''1999''])) ''students'') ''A'' of
      Some r \<Rightarrow> [r ''createdAt'', r ''updatedAt'']
    | None \<Rightarrow> []) =
     [Some (Str ''2026-11-03T10:00:00.000Z''), Some (Str ''2026-11-03T10:00:00.000Z'')] \<and>
   (case map_of (store (snd (setDocument world0 ''students'' ''s1''
            [''createdAt'' \<mapsto> Str ''1999'', ''updatedAt'' \<mapsto> Str ''1999''])) ''students'') ''s1'' of
      Some r \<Rightarrow> [r ''createdAt'', r ''updatedAt'']
    | None \<Rightarrow> []) =
     [Some (Str ''2026-11-03T10:00:00.000Z''), Some (Str ''2026-11-03T10:00:00.000Z'')] \<and>
   (case map_of (store (snd (updateDocument world0 ''students'' ''s1''
            [''createdAt'' \<mapsto> Str ''1999'', ''updatedAt'' \<mapsto> Str ''1999''])) ''students'') ''s1'' of
      Some r \<Rightarrow> [r ''createdAt'', r ''updatedAt'']
    | None \<Rightarrow> []) =
     [Some (Str ''1999''), Some (Str ''2026-11-03T10:00:00.000Z'')]"
  using write_stamps_override_caller_fields
    [where w = world0 and c = "''students''" and i = "''s1''"
       and d = "[''createdAt'' \<mapsto> Str ''1999'', ''updatedAt'' \<mapsto> Str ''1999'']"
       and old = "snd (hd students0)"]
  by (simp add: world0_def students0_def addDocument_def addDoc_def collection_def
      setDocument_def setDoc_def updateDocument_def updateDoc_def doc_def
      new_Date_toISOString_def console_log_def Let_def)
text \<open>
  C10 as stated fails for \<open>updateDocument\<close>: a caller who passes \<open>createdAt\<close> in the
  partial data replaces the stored creation timestamp with a value of their choice.
\<close>

theorem update_forges_createdAt_counterexample:
  "fst (updateDocument world0 ''students'' ''s1'' [''createdAt'' \<mapsto> Str ''1999-12-31T00:00:00.000Z''])
     = Inr () \<and>
   (case map_of (store (snd (updateDocument world0 ''students'' ''s1''
            [''createdAt'' \<mapsto> Str ''1999-12-31T00:00:00.000Z''])) ''students'') ''s1'' of
      Some r \<Rightarrow> r ''createdAt''
    | None \<Rightarrow> None) = Some (Str ''1999-12-31T00:00:00.000Z'') \<and>
   wall world0 (reads world0) = ''2026-11-03T10:00:00.000Z''"
  by (simp add: world0_def students0_def updateDocument_def updateDoc_def doc_def
      new_Date_toISOString_def console_log_def Let_def)
text \<open>
  C7, as amended. After a successful update of an existing record with stored fields \<open>r\<close>,
  reading it back gives a record in which every field of the partial data other than
  \<open>updatedAt\<close> has the value given, every field other than \<open>updatedAt\<close> that the partial
  data lacks has the value a read gave before (the stored fields spread over the
  annotation \<open>id\<close>), and \<open>updatedAt\<close> is the reading of the clock taken by the update.
\<close>

theorem update_then_get:
  assumes "map_of (store w c) i = Some r"
    and "fault w (requests w) = None"
    and "fault w (Suc (requests w)) = None"
  shows "fst (updateDocument w c i u) = Inr () \<and>
         (\<exists>r'. fst (getDocument (snd (updateDocument w c i u)) c i) = Inr (Some r') \<and>
            (\<forall>f x. f \<noteq> ''updatedAt'' \<longrightarrow> u f = Some x \<longrightarrow> r' f = Some x) \<and>
            (\<forall>f. f \<noteq> ''updatedAt'' \<longrightarrow> u f = None \<longrightarrow> r' f = ([''id'' \<mapsto> Str i] ++ r) f) \<and>
            r' ''updatedAt'' = Some (Str (wall w (reads w))))"
proof -
  let ?t = "Str (wall w (reads w))"
  have upd: "updateDocument w c i u =
      (Inr (), console_log
         (w\<lparr>reads := Suc (reads w), requests := Suc (requests w),
            store := (store w)(c := AList.update i (r ++ u(''updatedAt'' \<mapsto> ?t)) (store w c))\<rparr>)
         ''Document updated:'' i)"
    using assms(1,2)
    by (simp add: updateDocument_def updateDoc_def doc_def new_Date_toISOString_def Let_def)
  have get: "fst (getDocument (snd (updateDocument w c i u)) c i) =
      Inr (Some ([''id'' \<mapsto> Str i] ++ (r ++ u(''updatedAt'' \<mapsto> ?t))))"
    using assms(3)
    by (simp add: upd getDocument_def getDoc_def doc_def Let_def console_log_def update_conv')
  let ?r' = "[''id'' \<mapsto> Str i] ++ (r ++ u(''updatedAt'' \<mapsto> ?t))"
  have ok: "fst (updateDocument w c i u) = Inr ()"
    by (simp add: upd)
  have present: "\<forall>f x. f \<noteq> ''updatedAt'' \<longrightarrow> u f = Some x \<longrightarrow> ?r' f = Some x"
    by (simp add: map_add_def)
  have absent: "\<forall>f. f \<noteq> ''updatedAt'' \<longrightarrow> u f = None \<longrightarrow> ?r' f = ([''id'' \<mapsto> Str i] ++ r) f"
    by (simp add: map_add_def)
  have stamp: "?r' ''updatedAt'' = Some ?t"
    by (simp add: map_add_def)
  show ?thesis
  proof (intro conjI exI [of _ ?r'])
    show "fst (updateDocument w c i u) = Inr ()" by (rule ok)
    show "fst (getDocument (snd (updateDocument w c i u)) c i) = Inr (Some ?r')" by (rule get)
    show "\<forall>f x. f \<noteq> ''updatedAt'' \<longrightarrow> u f = Some x \<longrightarrow> ?r' f = Some x" by (rule present)
    show "\<forall>f. f \<noteq> ''updatedAt'' \<longrightarrow> u f = None \<longrightarrow> ?r' f = ([''id'' \<mapsto> Str i] ++ r) f"
      by (rule absent)
    show "?r' ''updatedAt'' = Some ?t" by (rule stamp)
  qed
qed

theorem update_then_get_witness:
  "map_of (store world0 ''students'') ''s1'' = Some (snd (hd students0)) \<and>
   fault world0 (requests world0) = None \<and>
   fault world0 (Suc (requests world0)) = None \<and>
   fst (updateDocument world0 ''students'' ''s1'' [''email'' \<mapsto> Str ''ana@example.org'']) = Inr () \<and>
   (case fst (getDocument
        (snd (updateDocument world0 ''students'' ''s1'' [''email'' \<mapsto> Str ''ana@example.org'']))
        ''students'' ''s1'') of
      Inr (Some r') \<Rightarrow> [r' ''id'', r' ''name'', r' ''email'', r' ''createdAt'', r' ''updatedAt'']
    | _ \<Rightarrow> []) =
     [Some (Str ''s1''), Some (Str ''Ana''), Some (Str ''ana@example.org''),
      Some (Str ''2020-01-01T00:00:00.000Z''), Some (Str ''2026-11-03T10:00:00.000Z'')]"
  using update_then_get
    [where w = world0 and c = "''students''" and i = "''s1''" and r = "snd (hd students0)"
       and u = "[''email'' \<mapsto> Str ''ana@example.org'']"]
  by (simp add: world0_def students0_def updateDocument_def updateDoc_def doc_def
      getDocument_def getDoc_def new_Date_toISOString_def console_log_def Let_def)
text \<open>
  C7 as stated fails twice. An \<open>updatedAt\<close> in the partial data does not come back: the
  stamp replaces it. And the update timestamp need not increase: the stamp is the clock of
  the browser that runs the update, here five minutes behind the clock that stamped the
  record before, so the timestamp read back is earlier than the one it replaces.
\<close>

theorem update_then_get_counterexample:
  "(case fst (getDocument
        (snd (updateDocument world0 ''students'' ''s1''
                [''updatedAt'' \<mapsto> Str ''2030-01-01T00:00:00.000Z'']))
        ''students'' ''s1'') of
      Inr (Some r') \<Rightarrow> r' ''updatedAt''
    | _ \<Rightarrow> None) = Some (Str ''2026-11-03T10:00:00.000Z'') \<and>
   (case fst (getDocument world0 ''students'' ''s1'') of
      Inr (Some r0) \<Rightarrow> r0 ''updatedAt''
    | _ \<Rightarrow> None) = Some (Str ''2026-11-03T10:05:00.000Z'') \<and>
   (case fst (getDocument
        (snd (updateDocument world0 ''students'' ''s1'' [''email'' \<mapsto> Str ''ana@example.org'']))
        ''students'' ''s1'') of
      Inr (Some r') \<Rightarrow> r' ''updatedAt''
    | _ \<Rightarrow> None) = Some (Str ''2026-11-03T10:00:00.000Z'') \<and>
   \<not> ''2026-11-03T10:05:00.000Z'' < ''2026-11-03T10:00:00.000Z''"
  by (simp add: updateDocument_def updateDoc_def getDocument_def getDoc_def doc_def
      new_Date_toISOString_def console_log_def world0_def students0_def)

section \<open>Errors of the client\<close>

text \<open>
  C6. Each of the seven operations fails with an error \<open>e\<close> exactly when the call it makes
  to the client fails with \<open>e\<close>: the error is the client's own, and the facade adds none.
  For \<open>queryDocuments\<close> the call is the composition of the query, and then the read.
\<close>

theorem facade_rethrows_client_error:
  "(fst (addDocument w c d) = Inl e) =
     (fst (addDoc (w\<lparr>reads := Suc (Suc (reads w))\<rparr>) (collection c)
             (d(''createdAt'' \<mapsto> Str (wall w (reads w)),
                ''updatedAt'' \<mapsto> Str (wall w (Suc (reads w)))))) = Inl e) \<and>
   (fst (setDocument w c i d) = Inl e) =
     (fst (setDoc (w\<lparr>reads := Suc (Suc (reads w))\<rparr>) (doc c i)
             (d(''createdAt'' \<mapsto> Str (wall w (reads w)),
                ''updatedAt'' \<mapsto> Str (wall w (Suc (reads w)))))) = Inl e) \<and>
   (fst (getDocument w c i) = Inl e) = (fst (getDoc w (doc c i)) = Inl e) \<and>
   (fst (getAllDocuments w c) = Inl e) = (fst (getDocs w (collection c)) = Inl e) \<and>
   (fst (queryDocuments w c conds ob lim) = Inl e) =
     (case query (collection c) (query_constraints conds ob lim) of
        Inl e' \<Rightarrow> e' = e
      | Inr q \<Rightarrow> fst (getDocs w q) = Inl e) \<and>
   (fst (updateDocument w c i d) = Inl e) =
     (fst (updateDoc (w\<lparr>reads := Suc (reads w)\<rparr>) (doc c i)
             (d(''updatedAt'' \<mapsto> Str (wall w (reads w))))) = Inl e) \<and>
   (fst (deleteDocument w c i) = Inl e) = (fst (deleteDoc w (doc c i)) = Inl e)"
proof (intro conjI)
  show "(fst (addDocument w c d) = Inl e) =
     (fst (addDoc (w\<lparr>reads := Suc (Suc (reads w))\<rparr>) (collection c)
             (d(''createdAt'' \<mapsto> Str (wall w (reads w)),
                ''updatedAt'' \<mapsto> Str (wall w (Suc (reads w)))))) = Inl e)"
    by (simp add: addDocument_def new_Date_toISOString_def split: prod.splits sum.splits)
  show "(fst (setDocument w c i d) = Inl e) =
     (fst (setDoc (w\<lparr>reads := Suc (Suc (reads w))\<rparr>) (doc c i)
             (d(''createdAt'' \<mapsto> Str (wall w (reads w)),
                ''updatedAt'' \<mapsto> Str (wall w (Suc (reads w)))))) = Inl e)"
    by (simp add: setDocument_def new_Date_toISOString_def split: prod.splits sum.splits)
  show "(fst (getDocument w c i) = Inl e) = (fst (getDoc w (doc c i)) = Inl e)"
    by (simp add: getDocument_def split: prod.splits sum.splits option.splits)
  show "(fst (getAllDocuments w c) = Inl e) = (fst (getDocs w (collection c)) = Inl e)"
    by (simp add: getAllDocuments_def split: prod.splits sum.splits)
  show "(fst (queryDocuments w c conds ob lim) = Inl e) =
     (case query (collection c) (query_constraints conds ob lim) of
        Inl e' \<Rightarrow> e' = e
      | Inr q \<Rightarrow> fst (getDocs w q) = Inl e)"
    by (simp add: queryDocuments_def split: prod.splits sum.splits)
  show "(fst (updateDocument w c i d) = Inl e) =
     (fst (updateDoc (w\<lparr>reads := Suc (reads w)\<rparr>) (doc c i)
             (d(''updatedAt'' \<mapsto> Str (wall w (reads w))))) = Inl e)"
    by (simp add: updateDocument_def new_Date_toISOString_def split: prod.splits sum.splits)
  show "(fst (deleteDocument w c i) = Inl e) = (fst (deleteDoc w (doc c i)) = Inl e)"
    by (simp add: deleteDocument_def split: prod.splits sum.splits)
qed

theorem facade_rethrows_client_error_witness:
  "fst (addDocument world_down ''students'' Map.empty) = Inl offline \<and>
   fst (setDocument world_down ''students'' ''s1'' Map.empty) = Inl offline \<and>
   fst (getDocument world_down ''students'' ''s1'') = Inl offline \<and>
   fst (getAllDocuments world_down ''students'') = Inl offline \<and>
   fst (queryDocuments world_down ''students'' [] None None) = Inl offline \<and>
   fst (updateDocument world_down ''students'' ''s1'' Map.empty) = Inl offline \<and>
   fst (deleteDocument world_down ''students'' ''s1'') = Inl offline \<and>
   fst (queryDocuments world0 ''students'' [(''name'', ''in'', Str ''Ana'')] None None) =
     Inl (StoreError ''invalid-argument'') \<and>
   fst (updateDocument world0 ''students'' ''nobody'' Map.empty) = Inl (StoreError ''not-found'')"
  using facade_rethrows_client_error
    [where w = world_down and c = "''students''" and i = "''s1''" and d = Map.empty
       and e = offline and conds = "[]" and ob = None and lim = None]
    facade_rethrows_client_error
    [where w = world0 and c = "''students''" and i = "''nobody''" and d = Map.empty
       and e = "StoreError ''not-found''" and conds = "[]" and ob = None and lim = None]
    facade_rethrows_client_error
    [where w = world0 and c = "''students''" and i = "''nobody''" and d = Map.empty
       and e = "StoreError ''invalid-argument''" and conds = "[(''name'', ''in'', Str ''Ana'')]"
       and ob = None and lim = None]
  by (simp add: world_down_def world0_def students0_def offline_def addDoc_def setDoc_def
      getDoc_def getDocs_def updateDoc_def deleteDoc_def query_def query_constraints_def
      valid_operator_def collection_def doc_def Let_def)
section \<open>Listeners\<close>

text \<open>
  C2, as amended. When a failure is delivered to a subscription made by either listener,
  the only effect is a line on the console carrying the error; the callback is not
  invoked and nothing reaches the caller. The subscription is then as after
  \<open>unsubscribe\<close>: whatever is delivered to it later has no effect.
\<close>

theorem listener_failure_goes_to_console:
  "deliver (listenToDocument c i) (Failure e) =
     ([Console (Err ''Error listening to document:'' e)], unsubscribe (listenToDocument c i)) \<and>
   deliver (unsubscribe (listenToDocument c i)) ev = ([], unsubscribe (listenToDocument c i)) \<and>
   (listenToCollection c conds = Inr s \<longrightarrow>
      deliver s (Failure e) = ([Console (Err ''Error listening to collection:'' e)], unsubscribe s) \<and>
      deliver (unsubscribe s) ev' = ([], unsubscribe s))"
  by (auto simp: listenToCollection_def listenToDocument_def deliver_def onSnapshot_def
      unsubscribe_def split: sum.splits if_splits)

theorem listener_failure_goes_to_console_witness:
  "listenToCollection ''students'' [] = Inr (projr (listenToCollection ''students'' [])) \<and>
   fst (deliver (listenToDocument ''students'' ''s1'') (Failure offline)) =
     [Console (Err ''Error listening to document:'' offline)] \<and>
   \<not> active (snd (deliver (listenToDocument ''students'' ''s1'') (Failure offline))) \<and>
   fst (deliver (snd (deliver (listenToDocument ''students'' ''s1'') (Failure offline)))
          (Snapshot (''s1'', Some juan))) = [] \<and>
   fst (deliver (projr (listenToCollection ''students'' [])) (Failure offline)) =
     [Console (Err ''Error listening to collection:'' offline)] \<and>
   fst (deliver (snd (deliver (projr (listenToCollection ''students'' [])) (Failure offline)))
          (Snapshot students0)) = []"
  using listener_failure_goes_to_console
    [where c = "''students''" and i = "''s1''" and e = offline and conds = "[]"
       and ev = "Snapshot (''s1'', Some juan)" and ev' = "Snapshot students0"
       and s = "projr (listenToCollection ''students'' [])"]
  by (simp add: listenToCollection_def unsubscribe_def)
text \<open>
  C2 as stated fails where it says the error is surfaced to the caller: of the effects of
  a failure none is one the caller receives.
\<close>

theorem listener_failure_not_surfaced_counterexample:
  "\<not> list_ex reaches_caller
       (fst (deliver (listenToDocument ''students'' ''s1'') (Failure offline)))"
  by (simp add: listenToDocument_def deliver_def onSnapshot_def)

section \<open>Submitting the form\<close>

text \<open>
  C8, as amended. With an editing identifier that is a non-empty string, \<open>handleSubmit\<close>
  calls \<open>updateDocument\<close> with it and the form fields; with \<open>null\<close> or the empty string it
  calls \<open>addDocument\<close> with the form fields. When the call succeeds the view is that of a
  reload started from the reset form: the form is cleared, the editing identifier is
  \<open>null\<close>, the modal is closed, and one more request has gone to the store. When the call
  fails the view is the old one with a notification added: form fields, editing
  identifier, modal and list are as they were.
\<close>

theorem handleSubmit_saves_then_reloads:
  "(editingId v = Some i \<longrightarrow> i \<noteq> [] \<longrightarrow>
      fst (updateDocument w ''students'' i (formData v)) = Inr () \<longrightarrow>
      handleSubmit w v =
        loadStudents (snd (updateDocument w ''students'' i (formData v)))
          (resetForm (alert v ''Student updated successfully!''))) \<and>
   (editingId v = Some i \<longrightarrow> i \<noteq> [] \<longrightarrow>
      fst (updateDocument w ''students'' i (formData v)) = Inl e \<longrightarrow>
      fst (handleSubmit w v) = alert v ''Failed to save student'') \<and>
   (editingId v = None \<or> editingId v = Some [] \<longrightarrow>
      fst (addDocument w ''students'' (formData v)) = Inr j \<longrightarrow>
      handleSubmit w v =
        loadStudents (snd (addDocument w ''students'' (formData v)))
          (resetForm (alert v ''Student added successfully!''))) \<and>
   (editingId v = None \<or> editingId v = Some [] \<longrightarrow>
      fst (addDocument w ''students'' (formData v)) = Inl e \<longrightarrow>
      fst (handleSubmit w v) = alert v ''Failed to save student'') \<and>
   (formData (fst (loadStudents w1 (resetForm a))) = empty_form \<and>
    editingId (fst (loadStudents w1 (resetForm a))) = None \<and>
    showModal (fst (loadStudents w1 (resetForm a))) = False \<and>
    requests (snd (loadStudents w1 (resetForm a))) = Suc (requests w1)) \<and>
   (formData (alert v m) = formData v \<and> showModal (alert v m) = showModal v \<and>
    editingId (alert v m) = editingId v \<and> students (alert v m) = students v)"
proof (intro conjI impI)
  show "formData (fst (loadStudents w1 (resetForm a))) = empty_form"
    "editingId (fst (loadStudents w1 (resetForm a))) = None"
    "showModal (fst (loadStudents w1 (resetForm a))) = False"
    by (simp_all add: loadStudents_def resetForm_def alert_def split: prod.splits sum.splits)
  show "requests (snd (loadStudents w1 (resetForm a))) = Suc (requests w1)"
    by (simp add: loadStudents_def getAllDocuments_def getDocs_def console_error_def Let_def
        split: option.splits)
  show "formData (alert v m) = formData v" "showModal (alert v m) = showModal v"
    "editingId (alert v m) = editingId v" "students (alert v m) = students v"
    by (simp_all add: alert_def)
next
  assume "editingId v = Some i" "i \<noteq> []" "fst (updateDocument w ''students'' i (formData v)) = Inr ()"
  then show "handleSubmit w v =
        loadStudents (snd (updateDocument w ''students'' i (formData v)))
          (resetForm (alert v ''Student updated successfully!''))"
    by (cases "updateDocument w ''students'' i (formData v)"; cases "addDocument w ''students'' (formData v)")
      (auto simp: handleSubmit_def truthy_string_def)
next
  assume "editingId v = Some i" "i \<noteq> []" "fst (updateDocument w ''students'' i (formData v)) = Inl e"
  then show "fst (handleSubmit w v) = alert v ''Failed to save student''"
    by (cases "updateDocument w ''students'' i (formData v)"; cases "addDocument w ''students'' (formData v)")
      (auto simp: handleSubmit_def truthy_string_def)
next
  assume "editingId v = None \<or> editingId v = Some []" "fst (addDocument w ''students'' (formData v)) = Inr j"
  then show "handleSubmit w v =
        loadStudents (snd (addDocument w ''students'' (formData v)))
          (resetForm (alert v ''Student added successfully!''))"
    by (cases "updateDocument w ''students'' i (formData v)"; cases "addDocument w ''students'' (formData v)")
      (auto simp: handleSubmit_def truthy_string_def)
next
  assume "editingId v = None \<or> editingId v = Some []" "fst (addDocument w ''students'' (formData v)) = Inl e"
  then show "fst (handleSubmit w v) = alert v ''Failed to save student''"
    by (cases "updateDocument w ''students'' i (formData v)"; cases "addDocument w ''students'' (formData v)")
      (auto simp: handleSubmit_def truthy_string_def)
qed

theorem handleSubmit_saves_then_reloads_witness:
  "editingId view0 = Some ''s1'' \<and>
   fst (updateDocument world0 ''students'' ''s1'' (formData view0)) = Inr () \<and>
   formData (fst (handleSubmit world0 view0)) = empty_form \<and>
   editingId (fst (handleSubmit world0 view0)) = None \<and>
   \<not> showModal (fst (handleSubmit world0 view0)) \<and>
   requests (snd (handleSubmit world0 view0)) = 2 \<and>
   map (\<lambda>r. r ''email'') (students (fst (handleSubmit world0 view0))) =
     [Some (Str ''ana@example.org'')] \<and>
   fst (updateDocument world_down ''students'' ''s1'' (formData view0)) = Inl offline \<and>
   fst (handleSubmit world_down view0) = alert view0 ''Failed to save student'' \<and>
   showModal (fst (handleSubmit world_down view0)) \<and>
   formData (fst (handleSubmit world_down view0)) = formData view0 \<and>
   editingId (fst (handleSubmit world_down view0)) = Some ''s1'' \<and>
   fst (addDocument world0 ''students'' (formData view0)) = Inr ''A'' \<and>
   map (\<lambda>r. r ''id'')
     (students (fst (handleSubmit world0 (view0\<lparr>editingId := None\<rparr>)))) =
     [Some (Str ''s1''), Some (Str ''A'')] \<and>
   formData (fst (handleSubmit world0 (view0\<lparr>editingId := None\<rparr>))) = empty_form \<and>
   fst (addDocument world_down ''students'' (formData view0)) = Inl offline \<and>
   fst (handleSubmit world_down (view0\<lparr>editingId := None\<rparr>)) =
     alert (view0\<lparr>editingId := None\<rparr>) ''Failed to save student''"
  using handleSubmit_saves_then_reloads
    [where w = world0 and v = view0 and i = "''s1''"
       and ?w1.0 = "snd (updateDocument world0 ''students'' ''s1'' (formData view0))"
       and a = "alert view0 ''Student updated successfully!''"
       and m = "''Failed to save student''"]
    handleSubmit_saves_then_reloads
    [where w = world_down and v = view0 and i = "''s1''" and e = offline]
    handleSubmit_saves_then_reloads
    [where w = world0 and v = "view0\<lparr>editingId := None\<rparr>" and j = "''A''"]
    handleSubmit_saves_then_reloads
    [where w = world_down and v = "view0\<lparr>editingId := None\<rparr>" and e = offline]
  by (simp add: view0_def world_down_def world0_def students0_def offline_def
      updateDocument_def updateDoc_def addDocument_def addDoc_def collection_def doc_def
      new_Date_toISOString_def console_log_def console_error_def loadStudents_def
      getAllDocuments_def getDocs_def run_query_def capped_def ordered_def resetForm_def
      alert_def empty_form_def Let_def)
text \<open>
  C8 as stated fails at the empty string, an editing identifier that is not \<open>null\<close>: the
  test \<open>if (editingId)\<close> sends it to \<open>addDocument\<close>, and the store gains a record.
\<close>

theorem handleSubmit_empty_identifier_counterexample:
  "editingId (view0\<lparr>editingId := Some []\<rparr>) \<noteq> None \<and>
   map fst (store (snd (handleSubmit world0 (view0\<lparr>editingId := Some []\<rparr>))) ''students'') =
     [''s1'', ''A''] \<and>
   console (snd (handleSubmit world0 (view0\<lparr>editingId := Some []\<rparr>))) =
     [Log ''Document added with ID:'' ''A'']"
  by (simp add: handleSubmit_def truthy_string_def addDocument_def addDoc_def collection_def
      new_Date_toISOString_def console_log_def loadStudents_def getAllDocuments_def getDocs_def
      resetForm_def alert_def view0_def world0_def students0_def Let_def)

end
